theory Spec2Isabelle
  imports Main "HOL-Library.Word" "HOL-Library.Signed_Division"
begin

section \<open>Machine integers of the gateway's analysis model\<close>

text \<open>
  The package \<open>model\<close> counts in Go's \<open>int64\<close>: every field of \<open>point\<close> is an
  \<open>atomic.Int64\<close> (\<open>Get\<close> reads it, \<open>Set\<close> stores, \<open>Incr\<close> adds 1, \<open>Add\<close> adds its
  argument, all wrapping in two's complement), and \<open>time.Duration\<close> is an \<open>int64\<close> of
  nanoseconds. Go's \<open>int\<close> is taken at its 64-bit width, so \<open>int(x)\<close> of an \<open>int64\<close> is
  \<open>x\<close> itself.
\<close>

type_synonym int64 = "64 word"
type_synonym duration = "64 word"

definition Millisecond :: duration where
  "Millisecond = 1000000"

definition Second :: duration where
  "Second = 1000000000"

text \<open>
  Go's \<open>/\<close> on signed integers truncates towards zero; the most negative value divided
  by \<open>-1\<close> wraps to itself. A zero divisor is a run-time panic, which \<open>go_div\<close> returns
  as \<open>Inl\<close>; \<open>quot\<close> is the quotient for a divisor known not to be zero.
\<close>

datatype panic = NilDereference | DivideByZero | NonPositiveTicker

definition quot :: "int64 \<Rightarrow> int64 \<Rightarrow> int64" where
  "quot a b = word_of_int (sint a sdiv sint b)"

definition go_div :: "int64 \<Rightarrow> int64 \<Rightarrow> panic + int64" where
  "go_div a b = (if b = 0 then Inl DivideByZero else Inr (quot a b))"

section \<open>Counter points\<close>

record point =
  p_requests :: int64
  p_rejects :: int64
  p_failure :: int64
  p_successed :: int64
  p_continuousFailure :: int64
  p_costs :: int64
  p_max :: int64
  p_min :: int64

definition newPoint :: point where
  "newPoint = \<lparr>p_requests = 0, p_rejects = 0, p_failure = 0, p_successed = 0,
     p_continuousFailure = 0, p_costs = 0, p_max = 0, p_min = 0\<rparr>"

text \<open>
  \<open>p.dump(target)\<close> writes seven fields of \<open>target\<close> and then two of \<open>p\<close>. The receiver
  is the live point of a key and the target a snapshot buffer of a window, two
  distinct objects; the model returns both after the call, the receiver first.
\<close>

definition dump :: "point \<Rightarrow> point \<Rightarrow> point \<times> point" where
  "dump p target =
     (let target1 = target\<lparr>p_requests := p_requests p\<rparr>;
          target2 = target1\<lparr>p_rejects := p_rejects p\<rparr>;
          target3 = target2\<lparr>p_failure := p_failure p\<rparr>;
          target4 = target3\<lparr>p_successed := p_successed p\<rparr>;
          target5 = target4\<lparr>p_max := p_max p\<rparr>;
          target6 = target5\<lparr>p_min := p_min p\<rparr>;
          target7 = target6\<lparr>p_costs := p_costs p\<rparr>;
          p1 = p\<lparr>p_min := 0\<rparr>;
          p2 = p1\<lparr>p_max := 0\<rparr>
      in (p2, target7))"

section \<open>Recently windows\<close>

record Recently =
  period :: duration
  prev :: point
  current :: point
  dumpCurr :: bool
  qps :: int64
  r_requests :: int64
  r_successed :: int64
  r_failure :: int64
  r_rejects :: int64
  r_max :: int64
  r_min :: int64
  r_avg :: int64

definition newRecently :: "duration \<Rightarrow> Recently" where
  "newRecently d = \<lparr>period = d, prev = newPoint, current = newPoint, dumpCurr = False,
     qps = 0, r_requests = 0, r_successed = 0, r_failure = 0, r_rejects = 0,
     r_max = 0, r_min = 0, r_avg = 0\<rparr>"

text \<open>
  \<open>calc\<close> assigns the derived fields one after the other; each definition below is one
  paragraph of its body, in the order of the source.
\<close>

definition calc_requests :: "Recently \<Rightarrow> Recently" where
  "calc_requests r =
     (let r1 = r\<lparr>r_requests := p_requests (current r) - p_requests (prev r)\<rparr>
      in if r_requests r1 <s 0 then r1\<lparr>r_requests := 0\<rparr> else r1)"

definition calc_successed :: "Recently \<Rightarrow> Recently" where
  "calc_successed r =
     (let r1 = r\<lparr>r_successed := p_successed (current r) - p_successed (prev r)\<rparr>
      in if r_successed r1 <s 0 then r1\<lparr>r_successed := 0\<rparr> else r1)"

definition calc_failure :: "Recently \<Rightarrow> Recently" where
  "calc_failure r =
     (let r1 = r\<lparr>r_failure := p_failure (current r) - p_failure (prev r)\<rparr>
      in if r_failure r1 <s 0 then r1\<lparr>r_failure := 0\<rparr> else r1)"

definition calc_rejects :: "Recently \<Rightarrow> Recently" where
  "calc_rejects r =
     (let r1 = r\<lparr>r_rejects := p_rejects (current r) - p_rejects (prev r)\<rparr>
      in if r_rejects r1 <s 0 then r1\<lparr>r_rejects := 0\<rparr> else r1)"

definition calc_max :: "Recently \<Rightarrow> Recently" where
  "calc_max r =
     (let r1 = r\<lparr>r_max := p_max (current r)\<rparr>
      in if r_max r1 <s 0 then r1\<lparr>r_max := 0\<rparr>
         else r1\<lparr>r_max := quot (quot (r_max r1) 1000) 1000\<rparr>)"

definition calc_min :: "Recently \<Rightarrow> Recently" where
  "calc_min r =
     (let r1 = r\<lparr>r_min := p_min (current r)\<rparr>
      in if r_min r1 <s 0 then r1\<lparr>r_min := 0\<rparr>
         else r1\<lparr>r_min := quot (quot (r_min r1) 1000) 1000\<rparr>)"

text \<open>
  The divisor of the average is \<open>r.requests\<close>, which the guard has just found not to be
  zero, so the division cannot panic.
\<close>

definition calc_avg :: "Recently \<Rightarrow> Recently" where
  "calc_avg r =
     (let costs = p_costs (current r) - p_costs (prev r)
      in if r_requests r = 0 then r\<lparr>r_avg := 0\<rparr>
         else r\<lparr>r_avg := quot (quot (quot costs 1000) 1000) (r_requests r)\<rparr>)"

text \<open>
  The divisor of the QPS is \<open>int64(r.period/time.Second)\<close>, which may be zero: then the
  division panics and \<open>qps\<close> keeps its old value, the fields assigned before it their
  new ones.
\<close>

definition calc_qps :: "Recently \<Rightarrow> Recently \<times> panic option" where
  "calc_qps r =
     (if r_requests r <s r_successed r
      then (case go_div (r_requests r) (quot (period r) Second) of
              Inl e \<Rightarrow> (r, Some e)
            | Inr q \<Rightarrow> (r\<lparr>qps := q\<rparr>, None))
      else (case go_div (r_successed r) (quot (period r) Second) of
              Inl e \<Rightarrow> (r, Some e)
            | Inr q \<Rightarrow> (r\<lparr>qps := q\<rparr>, None)))"

definition calc :: "Recently \<Rightarrow> Recently \<times> panic option" where
  "calc r =
     calc_qps (calc_avg (calc_min (calc_max (calc_rejects (calc_failure
       (calc_successed (calc_requests r)))))))"

text \<open>
  \<open>r.record(p)\<close>, named \<open>record_p\<close> here. It returns the window and the live point
  after the call. A panic of \<open>calc\<close> leaves the function before the toggle is flipped.
\<close>

definition record_p :: "Recently \<Rightarrow> point \<Rightarrow> (Recently \<times> point) \<times> panic option" where
  "record_p r p =
     (if dumpCurr r
      then (let (p', cur) = dump p (current r)
            in case calc (r\<lparr>current := cur\<rparr>) of
                 (r2, Some e) \<Rightarrow> ((r2, p'), Some e)
               | (r2, None) \<Rightarrow> ((r2\<lparr>dumpCurr := \<not> dumpCurr r2\<rparr>, p'), None))
      else (let (p', prv) = dump p (prev r)
            in ((r\<lparr>prev := prv, dumpCurr := \<not> dumpCurr r\<rparr>, p'), None)))"

section \<open>The analysis registry\<close>

text \<open>
  \<open>taskRunner\<close> stands for the \<open>task.Runner\<close> of the registry: the list of the
  cancelable tasks handed to \<open>RunCancelableTask\<close>, each named by the key and the
  interval its closure captured.
\<close>

record Analysis =
  taskRunner :: "(string \<times> duration) list"
  points :: "string \<rightharpoonup> point"
  recentlyPoints :: "string \<rightharpoonup> (duration \<rightharpoonup> Recently)"

definition NewAnalysis :: "(string \<times> duration) list \<Rightarrow> Analysis" where
  "NewAnalysis runner =
     \<lparr>taskRunner = runner, points = Map.empty, recentlyPoints = Map.empty\<rparr>"

text \<open>
  \<open>AddRecentCount\<close> changes the maps in place before it creates the ticker, and
  \<open>time.NewTicker\<close> panics on an interval that is not positive; the result is the
  registry as the call leaves it, with the panic if there was one. Reading a missing
  key of \<open>a.recentlyPoints\<close> gives a nil map, which reads as an empty one.
\<close>

definition AddRecentCount :: "Analysis \<Rightarrow> string \<Rightarrow> duration \<Rightarrow> Analysis \<times> panic option" where
  "AddRecentCount a key interval =
     (if interval = 0 then (a, None)
      else
        (let a1 = (if points a key = None
                   then a\<lparr>points := (points a)(key \<mapsto> newPoint)\<rparr> else a);
             a2 = (if recentlyPoints a1 key = None
                   then a1\<lparr>recentlyPoints := (recentlyPoints a1)(key \<mapsto> Map.empty)\<rparr>
                   else a1);
             m = (case recentlyPoints a2 key of None \<Rightarrow> Map.empty | Some m \<Rightarrow> m)
         in if m interval \<noteq> None then (a2, None)
            else
              (let recently = newRecently interval;
                   a3 = a2\<lparr>recentlyPoints :=
                          (recentlyPoints a2)(key \<mapsto> m(interval \<mapsto> recently))\<rparr>
               in if interval \<le>s 0 then (a3, Some NonPositiveTicker)
                  else (a3\<lparr>taskRunner := taskRunner a3 @ [(key, interval)]\<rparr>, None))))"

text \<open>
  The accessors take the read lock, look the window up and return one of its fields;
  each returns its value and the registry as it leaves it.
\<close>

definition GetRecentlyRequestCount :: "Analysis \<Rightarrow> string \<Rightarrow> duration \<Rightarrow> int64 \<times> Analysis" where
  "GetRecentlyRequestCount a server interval =
     (case recentlyPoints a server of
        None \<Rightarrow> (0, a)
      | Some ps \<Rightarrow> (case ps interval of None \<Rightarrow> (0, a) | Some pt \<Rightarrow> (r_requests pt, a)))"

definition GetRecentlyMax :: "Analysis \<Rightarrow> string \<Rightarrow> duration \<Rightarrow> int64 \<times> Analysis" where
  "GetRecentlyMax a server interval =
     (case recentlyPoints a server of
        None \<Rightarrow> (0, a)
      | Some ps \<Rightarrow> (case ps interval of None \<Rightarrow> (0, a) | Some pt \<Rightarrow> (r_max pt, a)))"

definition GetRecentlyMin :: "Analysis \<Rightarrow> string \<Rightarrow> duration \<Rightarrow> int64 \<times> Analysis" where
  "GetRecentlyMin a server interval =
     (case recentlyPoints a server of
        None \<Rightarrow> (0, a)
      | Some ps \<Rightarrow> (case ps interval of None \<Rightarrow> (0, a) | Some pt \<Rightarrow> (r_min pt, a)))"

definition GetRecentlyAvg :: "Analysis \<Rightarrow> string \<Rightarrow> duration \<Rightarrow> int64 \<times> Analysis" where
  "GetRecentlyAvg a server interval =
     (case recentlyPoints a server of
        None \<Rightarrow> (0, a)
      | Some ps \<Rightarrow> (case ps interval of None \<Rightarrow> (0, a) | Some pt \<Rightarrow> (r_avg pt, a)))"

definition GetQPS :: "Analysis \<Rightarrow> string \<Rightarrow> duration \<Rightarrow> int64 \<times> Analysis" where
  "GetQPS a server interval =
     (case recentlyPoints a server of
        None \<Rightarrow> (0, a)
      | Some ps \<Rightarrow> (case ps interval of None \<Rightarrow> (0, a) | Some pt \<Rightarrow> (qps pt, a)))"

definition GetRecentlyRejectCount :: "Analysis \<Rightarrow> string \<Rightarrow> duration \<Rightarrow> int64 \<times> Analysis" where
  "GetRecentlyRejectCount a server interval =
     (case recentlyPoints a server of
        None \<Rightarrow> (0, a)
      | Some ps \<Rightarrow> (case ps interval of None \<Rightarrow> (0, a) | Some pt \<Rightarrow> (r_rejects pt, a)))"

definition GetRecentlyRequestSuccessedCount :: "Analysis \<Rightarrow> string \<Rightarrow> duration \<Rightarrow> int64 \<times> Analysis" where
  "GetRecentlyRequestSuccessedCount a server interval =
     (case recentlyPoints a server of
        None \<Rightarrow> (0, a)
      | Some ps \<Rightarrow> (case ps interval of None \<Rightarrow> (0, a) | Some pt \<Rightarrow> (r_successed pt, a)))"

definition GetRecentlyRequestFailureCount :: "Analysis \<Rightarrow> string \<Rightarrow> duration \<Rightarrow> int64 \<times> Analysis" where
  "GetRecentlyRequestFailureCount a server interval =
     (case recentlyPoints a server of
        None \<Rightarrow> (0, a)
      | Some ps \<Rightarrow> (case ps interval of None \<Rightarrow> (0, a) | Some pt \<Rightarrow> (r_failure pt, a)))"

definition GetContinuousFailureCount :: "Analysis \<Rightarrow> string \<Rightarrow> int64 \<times> Analysis" where
  "GetContinuousFailureCount a server =
     (case points a server of None \<Rightarrow> (0, a) | Some p \<Rightarrow> (p_continuousFailure p, a))"

text \<open>
  The four mutators read \<open>a.points[key]\<close>, which is nil for a key that has no point,
  and call a method on a field of the result: on nil that is a nil-pointer panic, with
  the registry untouched.
\<close>

definition Reject :: "Analysis \<Rightarrow> string \<Rightarrow> Analysis \<times> panic option" where
  "Reject a key =
     (case points a key of
        None \<Rightarrow> (a, Some NilDereference)
      | Some p \<Rightarrow> (a\<lparr>points := (points a)(key \<mapsto> p\<lparr>p_rejects := p_rejects p + 1\<rparr>)\<rparr>, None))"

definition Failure :: "Analysis \<Rightarrow> string \<Rightarrow> Analysis \<times> panic option" where
  "Failure a key =
     (case points a key of
        None \<Rightarrow> (a, Some NilDereference)
      | Some p \<Rightarrow>
          (let p1 = p\<lparr>p_failure := p_failure p + 1\<rparr>;
               p2 = p1\<lparr>p_continuousFailure := p_continuousFailure p1 + 1\<rparr>
           in (a\<lparr>points := (points a)(key \<mapsto> p2)\<rparr>, None)))"

definition Request :: "Analysis \<Rightarrow> string \<Rightarrow> Analysis \<times> panic option" where
  "Request a key =
     (case points a key of
        None \<Rightarrow> (a, Some NilDereference)
      | Some p \<Rightarrow> (a\<lparr>points := (points a)(key \<mapsto> p\<lparr>p_requests := p_requests p + 1\<rparr>)\<rparr>, None))"

definition Response :: "Analysis \<Rightarrow> string \<Rightarrow> int64 \<Rightarrow> Analysis \<times> panic option" where
  "Response a key cost =
     (case points a key of
        None \<Rightarrow> (a, Some NilDereference)
      | Some p \<Rightarrow>
          (let p1 = p\<lparr>p_successed := p_successed p + 1\<rparr>;
               p2 = p1\<lparr>p_costs := p_costs p1 + cost\<rparr>;
               p3 = p2\<lparr>p_continuousFailure := 0\<rparr>;
               p4 = (if p_max p3 <s cost then p3\<lparr>p_max := cost\<rparr> else p3);
               p5 = (if p_min p4 = 0 \<or> cost <s p_min p4 then p4\<lparr>p_min := cost\<rparr> else p4)
           in (a\<lparr>points := (points a)(key \<mapsto> p5)\<rparr>, None)))"

section \<open>The background task of a window\<close>

text \<open>
  The task started by \<open>AddRecentCount\<close> is \<open>for { select { ... } }\<close> over the
  context's \<open>Done\<close> channel and the ticker's channel. \<open>tick\<close> is the ticker's case:
  \<open>recently\<close> there is the window that \<open>AddRecentCount\<close> stored under the key and the
  interval, which nothing replaces or removes, so the model reads it from the maps
  and writes the window and the live point back.
\<close>

definition tick :: "Analysis \<Rightarrow> string \<Rightarrow> duration \<Rightarrow> Analysis \<times> panic option" where
  "tick a key interval =
     (case points a key of
        None \<Rightarrow> (a, None)
      | Some p \<Rightarrow>
          (case recentlyPoints a key of
             None \<Rightarrow> (a, None)
           | Some m \<Rightarrow>
               (case m interval of
                  None \<Rightarrow> (a, None)
                | Some recently \<Rightarrow>
                    (case record_p recently p of
                       ((r', p'), e) \<Rightarrow>
                         (a\<lparr>points := (points a)(key \<mapsto> p'),
                            recentlyPoints := (recentlyPoints a)(key \<mapsto> m(interval \<mapsto> r'))\<rparr>,
                          e)))))"

text \<open>
  One pass through the loop body takes the case that \<open>select\<close> chose. A pass ends by
  going round the loop again, by returning from the task, or by a panic.
\<close>

datatype select_case = CtxDone | TimerC

record task_state =
  registry :: Analysis
  timer_stopped :: bool

datatype flow = Continue task_state | Return task_state | Panicked task_state panic

definition loop_body :: "string \<Rightarrow> duration \<Rightarrow> select_case \<Rightarrow> task_state \<Rightarrow> flow" where
  "loop_body key interval c s =
     (case c of
        CtxDone \<Rightarrow> Continue (s\<lparr>timer_stopped := True\<rparr>)
      | TimerC \<Rightarrow>
          (case tick (registry s) key interval of
             (a', None) \<Rightarrow> Continue (s\<lparr>registry := a'\<rparr>)
           | (a', Some e) \<Rightarrow> Panicked (s\<lparr>registry := a'\<rparr>) e))"

text \<open>
  The loop, for the sequence \<open>sched\<close> of the cases that \<open>select\<close> takes, from its
  \<open>n\<close>-th pass on. Its value is \<open>None\<close> when the loop runs forever.
\<close>

partial_function (option) task_loop ::
  "string \<Rightarrow> duration \<Rightarrow> (nat \<Rightarrow> select_case) \<Rightarrow> nat \<Rightarrow> task_state
     \<Rightarrow> (task_state \<times> panic option) option" where
  "task_loop key interval sched n s =
     (case loop_body key interval (sched n) s of
        Continue s' \<Rightarrow> task_loop key interval sched (Suc n) s'
      | Return s' \<Rightarrow> Some (s', None)
      | Panicked s' e \<Rightarrow> Some (s', Some e))"

section \<open>Traces of calls\<close>

text \<open>
  \<open>lookup_window\<close> is the double lookup that every accessor of a window starts with.
  A trace is a list of calls on the registry, the firing of a window's ticker among
  them; \<open>run\<close> makes them in order and stops at the first panic.
\<close>

definition lookup_window :: "Analysis \<Rightarrow> string \<Rightarrow> duration \<Rightarrow> Recently option" where
  "lookup_window a key interval =
     (case recentlyPoints a key of None \<Rightarrow> None | Some m \<Rightarrow> m interval)"

datatype call =
    CallAddRecentCount string duration
  | CallRequest string
  | CallReject string
  | CallFailure string
  | CallResponse string int64
  | Tick string duration

fun call_on :: "Analysis \<Rightarrow> call \<Rightarrow> Analysis \<times> panic option" where
  "call_on a (CallAddRecentCount key interval) = AddRecentCount a key interval"
| "call_on a (CallRequest key) = Request a key"
| "call_on a (CallReject key) = Reject a key"
| "call_on a (CallFailure key) = Failure a key"
| "call_on a (CallResponse key cost) = Response a key cost"
| "call_on a (Tick key interval) = tick a key interval"

fun run :: "Analysis \<Rightarrow> call list \<Rightarrow> Analysis \<times> panic option" where
  "run a [] = (a, None)"
| "run a (c # cs) =
     (case call_on a c of
        (a', None) \<Rightarrow> run a' cs
      | (a', Some e) \<Rightarrow> (a', Some e))"

text \<open>
  The traffic of the scenario of the specification: 10 requests, 8 successes of 50 ms
  each and 2 failures on one key.
\<close>

definition one_tick_of_traffic :: "string \<Rightarrow> call list" where
  "one_tick_of_traffic key =
     replicate 10 (CallRequest key) @ replicate 8 (CallResponse key (50 * Millisecond))
       @ replicate 2 (CallFailure key)"

text \<open>
  The scenario on a new registry: the window of 1 s is registered, its first tick fills
  the \<open>prev\<close> buffer, the traffic arrives, and the second tick fills \<open>current\<close> and
  recomputes.
\<close>

definition upstream_1_scenario :: "Analysis \<times> panic option" where
  "upstream_1_scenario =
     run (NewAnalysis [])
       ([CallAddRecentCount ''upstream-1'' Second, Tick ''upstream-1'' Second]
        @ one_tick_of_traffic ''upstream-1'' @ [Tick ''upstream-1'' Second])"

text \<open>
  The same traffic with its sizes left open: \<open>n\<close> requests, \<open>k + 1\<close> successes of one
  latency and \<open>f\<close> failures.
\<close>

definition traffic :: "string \<Rightarrow> nat \<Rightarrow> nat \<Rightarrow> int64 \<Rightarrow> nat \<Rightarrow> call list" where
  "traffic key n k cost f =
     replicate n (CallRequest key) @ replicate (Suc k) (CallResponse key cost)
       @ replicate f (CallFailure key)"

section \<open>Closed forms and examples\<close>

text \<open>
  \<open>nonneg\<close> is the clamp that \<open>calc\<close> applies to each delta. \<open>after_successes n cost p\<close>
  is the point \<open>p\<close> after \<open>n \<ge> 1\<close> calls of \<open>Response\<close> with the latency \<open>cost\<close>.
\<close>

definition nonneg :: "int64 \<Rightarrow> int64" where
  "nonneg d = (if d <s 0 then 0 else d)"

definition after_successes :: "nat \<Rightarrow> int64 \<Rightarrow> point \<Rightarrow> point" where
  "after_successes n cost p =
     p\<lparr>p_successed := p_successed p + of_nat n,
       p_costs := p_costs p + of_nat n * cost,
       p_continuousFailure := 0,
       p_max := (if p_max p <s cost then cost else p_max p),
       p_min := (if p_min p = 0 \<or> cost <s p_min p then cost else p_min p)\<rparr>"

text \<open>
  A window of 1 s whose snapshots differ by 10 requests and 8 successes, and a registry
  whose key has some history and a new window of 1 s.
\<close>

definition qps_example :: Recently where
  "qps_example =
     (newRecently Second)\<lparr>current := newPoint\<lparr>p_requests := 10, p_successed := 8\<rparr>\<rparr>"

definition warm_registry :: Analysis where
  "warm_registry =
     \<lparr>taskRunner = [(''upstream-1'', Second)],
      points = [''upstream-1'' \<mapsto>
        newPoint\<lparr>p_requests := 3, p_successed := 3, p_costs := 90 * Millisecond\<rparr>],
      recentlyPoints = [''upstream-1'' \<mapsto> [Second \<mapsto> newRecently Second]]\<rparr>"

section \<open>Snapshot of a counter point\<close>

text \<open>
  C7. Taking a snapshot copies requests, rejects, failures, successes, costs and the
  current max and min of the source into the target, and in the source resets max and
  min to 0 and changes nothing else: its cumulative counters and its
  continuous-failure streak are as before. (The target keeps its own
  continuous-failure field.)
\<close>

theorem dump_copies_and_resets_extremes:
  "snd (dump p target) =
     \<lparr>p_requests = p_requests p, p_rejects = p_rejects p, p_failure = p_failure p,
      p_successed = p_successed p, p_continuousFailure = p_continuousFailure target,
      p_costs = p_costs p, p_max = p_max p, p_min = p_min p\<rparr>
   \<and> fst (dump p target) = p\<lparr>p_max := 0, p_min := 0\<rparr>
   \<and> p_requests (fst (dump p target)) = p_requests p
   \<and> p_rejects (fst (dump p target)) = p_rejects p
   \<and> p_failure (fst (dump p target)) = p_failure p
   \<and> p_successed (fst (dump p target)) = p_successed p
   \<and> p_costs (fst (dump p target)) = p_costs p
   \<and> p_continuousFailure (fst (dump p target)) = p_continuousFailure p
   \<and> p_max (fst (dump p target)) = 0
   \<and> p_min (fst (dump p target)) = 0"
  by (simp add: dump_def Let_def)

section \<open>The hot-path mutators\<close>

text \<open>
  C1. On a registry that has no point for the key (a new registry has none for any
  key), \<open>Request\<close>, \<open>Reject\<close>, \<open>Failure\<close> and \<open>Response\<close> do not create the point:
  each ends in a nil-pointer panic and leaves the registry as it was.
\<close>

theorem mutators_panic_on_unknown_key:
  "Request (NewAnalysis runner) key = (NewAnalysis runner, Some NilDereference)
   \<and> Reject (NewAnalysis runner) key = (NewAnalysis runner, Some NilDereference)
   \<and> Failure (NewAnalysis runner) key = (NewAnalysis runner, Some NilDereference)
   \<and> Response (NewAnalysis runner) key latency = (NewAnalysis runner, Some NilDereference)"
  by (simp add: Request_def Reject_def Failure_def Response_def NewAnalysis_def)

text \<open>On a key that has a point, each mutator changes that point only and cannot fail.\<close>

lemma Request_Some:
  "points a key = Some p \<Longrightarrow>
   Request a key = (a\<lparr>points := (points a)(key \<mapsto> p\<lparr>p_requests := p_requests p + 1\<rparr>)\<rparr>, None)"
  by (simp add: Request_def)

lemma Reject_Some:
  "points a key = Some p \<Longrightarrow>
   Reject a key = (a\<lparr>points := (points a)(key \<mapsto> p\<lparr>p_rejects := p_rejects p + 1\<rparr>)\<rparr>, None)"
  by (simp add: Reject_def)

lemma Failure_Some:
  "points a key = Some p \<Longrightarrow>
   Failure a key =
     (a\<lparr>points := (points a)(key \<mapsto> p\<lparr>p_failure := p_failure p + 1,
          p_continuousFailure := p_continuousFailure p + 1\<rparr>)\<rparr>, None)"
  by (simp add: Failure_def Let_def)

lemma Response_Some:
  "points a key = Some p \<Longrightarrow>
   Response a key cost = (a\<lparr>points := (points a)(key \<mapsto> after_successes 1 cost p)\<rparr>, None)"
  by (cases "p_max p <s cost"; cases "p_min p = 0 \<or> cost <s p_min p")
     (simp_all add: Response_def Let_def after_successes_def)

text \<open>
  C8. For a key that has a point and any latency, \<open>Response\<close> cannot fail; it adds 1 to
  the successes and the latency to the costs, sets the continuous-failure streak to 0,
  sets max to the latency exactly when the latency is above the old max, and sets min to
  the latency exactly when the old min is 0 or the latency is below it. The other fields
  of the point are as before.
\<close>

theorem Response_records_success:
  assumes "points a key = Some p"
  shows "snd (Response a key latency) = None
     \<and> points (fst (Response a key latency)) key =
           Some (p\<lparr>p_successed := p_successed p + 1,
                   p_costs := p_costs p + latency,
                   p_continuousFailure := 0,
                   p_max := (if p_max p <s latency then latency else p_max p),
                   p_min := (if p_min p = 0 \<or> latency <s p_min p then latency
                             else p_min p)\<rparr>)"
  by (simp add: Response_Some [OF assms] after_successes_def)

text \<open>A success of 20 ms on the key of \<open>warm_registry\<close>.\<close>

theorem Response_records_success_witness:
  "points warm_registry ''upstream-1'' =
      Some (newPoint\<lparr>p_requests := 3, p_successed := 3, p_costs := 90 * Millisecond\<rparr>)
   \<and> snd (Response warm_registry ''upstream-1'' (20 * Millisecond)) = None
   \<and> points (fst (Response warm_registry ''upstream-1'' (20 * Millisecond))) ''upstream-1'' =
        Some (newPoint\<lparr>p_requests := 3, p_successed := 4, p_costs := 110 * Millisecond,
                p_max := 20 * Millisecond, p_min := 20 * Millisecond\<rparr>)"
proof -
  have h: "points warm_registry ''upstream-1'' =
      Some (newPoint\<lparr>p_requests := 3, p_successed := 3, p_costs := 90 * Millisecond\<rparr>)"
    by (simp add: warm_registry_def)
  from Response_records_success [OF h, of "20 * Millisecond"] h show ?thesis
    by (simp add: newPoint_def Millisecond_def word_sless_alt)
qed

section \<open>Repeated calls\<close>

lemma run_append:
  "run a (xs @ ys) =
     (case run a xs of (a', None) \<Rightarrow> run a' ys | (a', Some e) \<Rightarrow> (a', Some e))"
  by (induction xs arbitrary: a) (auto split: prod.splits option.splits)

lemma run_append_ok:
  "run a xs = (a', None) \<Longrightarrow> run a' ys = r \<Longrightarrow> run a (xs @ ys) = r"
  by (simp add: run_append)

lemma run_Cons_ok:
  "call_on a c = (a', None) \<Longrightarrow> run a' cs = r \<Longrightarrow> run a (c # cs) = r"
  by simp

lemma run_requests:
  "points a key = Some p \<Longrightarrow>
   run a (replicate n (CallRequest key)) =
     (a\<lparr>points := (points a)(key \<mapsto> p\<lparr>p_requests := p_requests p + of_nat n\<rparr>)\<rparr>, None)"
proof (induction n arbitrary: a p)
  case 0
  then show ?case by (simp add: map_upd_triv)
next
  case (Suc n)
  let ?p1 = "p\<lparr>p_requests := p_requests p + 1\<rparr>"
  let ?a1 = "a\<lparr>points := (points a)(key \<mapsto> ?p1)\<rparr>"
  have "run a (replicate (Suc n) (CallRequest key)) = run ?a1 (replicate n (CallRequest key))"
    by (simp add: Request_Some [OF Suc.prems])
  also have "\<dots> =
      (?a1\<lparr>points := (points ?a1)(key \<mapsto> ?p1\<lparr>p_requests := p_requests ?p1 + of_nat n\<rparr>)\<rparr>,
       None)"
    by (rule Suc.IH) simp
  also have "\<dots> =
      (a\<lparr>points := (points a)(key \<mapsto> p\<lparr>p_requests := p_requests p + of_nat (Suc n)\<rparr>)\<rparr>,
       None)"
    by (simp add: add.assoc)
  finally show ?case .
qed

lemma run_failures:
  "points a key = Some p \<Longrightarrow>
   run a (replicate n (CallFailure key)) =
     (a\<lparr>points := (points a)(key \<mapsto> p\<lparr>p_failure := p_failure p + of_nat n,
          p_continuousFailure := p_continuousFailure p + of_nat n\<rparr>)\<rparr>, None)"
proof (induction n arbitrary: a p)
  case 0
  then show ?case by (simp add: map_upd_triv)
next
  case (Suc n)
  let ?p1 = "p\<lparr>p_failure := p_failure p + 1,
               p_continuousFailure := p_continuousFailure p + 1\<rparr>"
  let ?a1 = "a\<lparr>points := (points a)(key \<mapsto> ?p1)\<rparr>"
  have "run a (replicate (Suc n) (CallFailure key)) = run ?a1 (replicate n (CallFailure key))"
    by (simp add: Failure_Some [OF Suc.prems])
  also have "\<dots> =
      (?a1\<lparr>points := (points ?a1)(key \<mapsto> ?p1\<lparr>p_failure := p_failure ?p1 + of_nat n,
          p_continuousFailure := p_continuousFailure ?p1 + of_nat n\<rparr>)\<rparr>, None)"
    by (rule Suc.IH) simp
  also have "\<dots> =
      (a\<lparr>points := (points a)(key \<mapsto> p\<lparr>p_failure := p_failure p + of_nat (Suc n),
          p_continuousFailure := p_continuousFailure p + of_nat (Suc n)\<rparr>)\<rparr>, None)"
    by (simp add: add.assoc)
  finally show ?case .
qed

lemma after_successes_Suc:
  "after_successes (Suc n) cost (after_successes (Suc 0) cost p) =
     after_successes (Suc (Suc n)) cost p"
  by (cases "p_max p <s cost"; cases "p_min p = 0 \<or> cost <s p_min p")
     (auto simp add: after_successes_def algebra_simps)

lemma run_responses:
  "points a key = Some p \<Longrightarrow>
   run a (replicate (Suc n) (CallResponse key cost)) =
     (a\<lparr>points := (points a)(key \<mapsto> after_successes (Suc n) cost p)\<rparr>, None)"
proof (induction n arbitrary: a p)
  case 0
  have "run a (replicate (Suc 0) (CallResponse key cost)) =
      (a\<lparr>points := (points a)(key \<mapsto> after_successes (Suc 0) cost p)\<rparr>, None)"
    by (simp add: Response_Some [OF "0.prems"])
  then show ?case .
next
  case (Suc n)
  let ?p1 = "after_successes 1 cost p"
  let ?a1 = "a\<lparr>points := (points a)(key \<mapsto> ?p1)\<rparr>"
  have "run a (replicate (Suc (Suc n)) (CallResponse key cost)) =
      run ?a1 (replicate (Suc n) (CallResponse key cost))"
    by (simp add: Response_Some [OF Suc.prems])
  also have "\<dots> =
      (?a1\<lparr>points := (points ?a1)(key \<mapsto> after_successes (Suc n) cost ?p1)\<rparr>, None)"
    by (rule Suc.IH) simp
  also have "\<dots> =
      (a\<lparr>points := (points a)(key \<mapsto> after_successes (Suc (Suc n)) cost p)\<rparr>, None)"
    by (simp add: after_successes_Suc)
  finally show ?case .
qed

section \<open>The continuous-failure streak\<close>

text \<open>
  C10. For a key that has a point, whatever its counters and its streak are: a success
  followed by one failure leaves the continuous-failure count at 1, and a success after
  any number \<open>n\<close> of failures leaves it at 0. No call in either trace fails.
\<close>

theorem streak_after_success_and_failure:
  assumes "points a key = Some p"
  shows "snd (run a [CallResponse key latency, CallFailure key]) = None
     \<and> GetContinuousFailureCount (fst (run a [CallResponse key latency, CallFailure key])) key
        = (1, fst (run a [CallResponse key latency, CallFailure key]))
     \<and> snd (run a (replicate n (CallFailure key) @ [CallResponse key latency])) = None
     \<and> GetContinuousFailureCount
          (fst (run a (replicate n (CallFailure key) @ [CallResponse key latency]))) key
        = (0, fst (run a (replicate n (CallFailure key) @ [CallResponse key latency])))"
proof -
  let ?p1 = "after_successes 1 latency p"
  let ?a1 = "a\<lparr>points := (points a)(key \<mapsto> ?p1)\<rparr>"
  let ?p2 = "?p1\<lparr>p_failure := p_failure ?p1 + 1,
                 p_continuousFailure := p_continuousFailure ?p1 + 1\<rparr>"
  let ?a2 = "?a1\<lparr>points := (points ?a1)(key \<mapsto> ?p2)\<rparr>"
  have "Failure ?a1 key = (?a2, None)"
    by (rule Failure_Some) simp
  then have sf: "run a [CallResponse key latency, CallFailure key] = (?a2, None)"
    by (simp add: Response_Some [OF assms])
  have one: "GetContinuousFailureCount ?a2 key = (1, ?a2)"
    by (simp add: GetContinuousFailureCount_def after_successes_def)
  let ?q1 = "p\<lparr>p_failure := p_failure p + of_nat n,
                p_continuousFailure := p_continuousFailure p + of_nat n\<rparr>"
  let ?b1 = "a\<lparr>points := (points a)(key \<mapsto> ?q1)\<rparr>"
  let ?q2 = "after_successes 1 latency ?q1"
  let ?b2 = "?b1\<lparr>points := (points ?b1)(key \<mapsto> ?q2)\<rparr>"
  have fs: "run ?b1 [CallResponse key latency] = (?b2, None)"
    by (rule run_Cons_ok [where a' = ?b2]) (simp_all add: Response_Some)
  have nfs: "run a (replicate n (CallFailure key) @ [CallResponse key latency]) = (?b2, None)"
    by (rule run_append_ok [OF run_failures [OF assms] fs])
  have zero: "GetContinuousFailureCount ?b2 key = (0, ?b2)"
    by (simp add: GetContinuousFailureCount_def after_successes_def)
  show ?thesis
    unfolding sf nfs using one zero by simp
qed

text \<open>On \<open>warm_registry\<close>: a success and a failure, then five failures and a success.\<close>

theorem streak_after_success_and_failure_witness:
  "points warm_registry ''upstream-1'' =
      Some (newPoint\<lparr>p_requests := 3, p_successed := 3, p_costs := 90 * Millisecond\<rparr>)
   \<and> fst (GetContinuousFailureCount
        (fst (run warm_registry [CallResponse ''upstream-1'' 7, CallFailure ''upstream-1'']))
        ''upstream-1'') = 1
   \<and> fst (GetContinuousFailureCount
        (fst (run warm_registry
           (replicate 5 (CallFailure ''upstream-1'') @ [CallResponse ''upstream-1'' 7])))
        ''upstream-1'') = 0"
proof -
  have h: "points warm_registry ''upstream-1'' =
      Some (newPoint\<lparr>p_requests := 3, p_successed := 3, p_costs := 90 * Millisecond\<rparr>)"
    by (simp add: warm_registry_def)
  from streak_after_success_and_failure [OF h, of 7 5] h show ?thesis
    by (simp only: fst_conv)
qed

section \<open>The accessors\<close>

text \<open>
  C9. When no window is registered for the key and the interval (the key has no windows
  at all, or none of that interval), the eight accessors of a window return 0; when the
  key has no point, \<open>GetContinuousFailureCount\<close> returns 0. No accessor has a failure
  branch, and every accessor leaves the registry as it found it, registered or not.
\<close>

theorem accessors_default_to_zero:
  "(lookup_window a server interval = None \<longrightarrow>
      GetRecentlyRequestCount a server interval = (0, a)
    \<and> GetRecentlyRequestSuccessedCount a server interval = (0, a)
    \<and> GetRecentlyRequestFailureCount a server interval = (0, a)
    \<and> GetRecentlyRejectCount a server interval = (0, a)
    \<and> GetRecentlyMax a server interval = (0, a)
    \<and> GetRecentlyMin a server interval = (0, a)
    \<and> GetRecentlyAvg a server interval = (0, a)
    \<and> GetQPS a server interval = (0, a))
   \<and> (points a server = None \<longrightarrow> GetContinuousFailureCount a server = (0, a))
   \<and> snd (GetRecentlyRequestCount a server interval) = a
   \<and> snd (GetRecentlyRequestSuccessedCount a server interval) = a
   \<and> snd (GetRecentlyRequestFailureCount a server interval) = a
   \<and> snd (GetRecentlyRejectCount a server interval) = a
   \<and> snd (GetRecentlyMax a server interval) = a
   \<and> snd (GetRecentlyMin a server interval) = a
   \<and> snd (GetRecentlyAvg a server interval) = a
   \<and> snd (GetQPS a server interval) = a
   \<and> snd (GetContinuousFailureCount a server) = a"
  by (simp add: lookup_window_def GetRecentlyRequestCount_def
      GetRecentlyRequestSuccessedCount_def GetRecentlyRequestFailureCount_def
      GetRecentlyRejectCount_def GetRecentlyMax_def GetRecentlyMin_def GetRecentlyAvg_def
      GetQPS_def GetContinuousFailureCount_def split: option.splits)

text \<open>A key that a new registry has never seen.\<close>

theorem accessors_default_to_zero_witness:
  "lookup_window (NewAnalysis []) ''never-seen'' Second = None
   \<and> points (NewAnalysis []) ''never-seen'' = None
   \<and> GetRecentlyRequestCount (NewAnalysis []) ''never-seen'' Second = (0, NewAnalysis [])
   \<and> GetRecentlyAvg (NewAnalysis []) ''never-seen'' Second = (0, NewAnalysis [])
   \<and> GetQPS (NewAnalysis []) ''never-seen'' Second = (0, NewAnalysis [])
   \<and> GetContinuousFailureCount (NewAnalysis []) ''never-seen'' = (0, NewAnalysis [])"
proof -
  have h: "lookup_window (NewAnalysis []) ''never-seen'' Second = None"
    "points (NewAnalysis []) ''never-seen'' = None"
    by (simp_all add: lookup_window_def NewAnalysis_def)
  from accessors_default_to_zero [of "NewAnalysis []" "''never-seen''" Second] h
  show ?thesis by blast
qed

section \<open>Signed quotients\<close>

lemma abs_div_le: "\<bar>k\<bar> div \<bar>l\<bar> \<le> \<bar>k\<bar>" for k l :: int
proof (cases "l = 0")
  case True
  then show ?thesis by simp
next
  case False
  then have "1 \<le> \<bar>l\<bar>" by simp
  then have "\<bar>k\<bar> div \<bar>l\<bar> \<le> \<bar>k\<bar> div 1"
    by (intro zdiv_mono2) simp_all
  then show ?thesis by simp
qed

lemma abs_sdiv_le: "\<bar>k sdiv l\<bar> \<le> \<bar>k\<bar>" for k l :: int
proof -
  have "\<bar>k sdiv l\<bar> = \<bar>sgn k\<bar> * \<bar>sgn l\<bar> * (\<bar>k\<bar> div \<bar>l\<bar>)"
    by (simp add: signed_divide_int_def abs_mult div_int_pos_iff)
  also have "\<dots> \<le> \<bar>k\<bar> div \<bar>l\<bar>"
    by (simp add: abs_sgn_eq div_int_pos_iff)
  also note abs_div_le
  finally show ?thesis .
qed

lemma sint_quot_range:
  "- (2 ^ 63) \<le> sint a sdiv sint b \<Longrightarrow> sint a sdiv sint b < 2 ^ 63 \<Longrightarrow>
   sint (quot a b) = sint a sdiv sint b"
  by (simp add: quot_def sint_sbintrunc' signed_take_bit_int_eq_self)

text \<open>A dividend that is not negative cannot overflow the quotient.\<close>

lemma sint_quot:
  assumes "0 \<le> sint a"
  shows "sint (quot a b) = sint a sdiv sint b"
proof (rule sint_quot_range)
  have lt: "sint a < 2 ^ 63" using sint_lt [of a] by simp
  have "\<bar>sint a sdiv sint b\<bar> \<le> \<bar>sint a\<bar>" by (rule abs_sdiv_le)
  with assms lt show "- (2 ^ 63) \<le> sint a sdiv sint b" "sint a sdiv sint b < 2 ^ 63"
    by linarith+
qed

lemma sint_nonneg: "0 \<le> sint (nonneg d)"
  by (simp add: nonneg_def word_sless_alt)

lemma sint_quot_Second: "sint (quot d Second) = sint d sdiv 1000000000"
proof -
  have s: "sint Second = 1000000000" by (simp add: Second_def)
  have lt: "sint d < 2 ^ 63" and ge: "- (2 ^ 63) \<le> sint d"
    using sint_lt [of d] sint_ge [of d] by simp_all
  have "\<bar>sint d sdiv 1000000000\<bar> = \<bar>sint d\<bar> div 1000000000"
    by (auto simp add: signed_divide_int_def abs_mult abs_sgn_eq div_int_pos_iff)
  also have "\<dots> \<le> 2 ^ 63 div 1000000000"
    using lt ge by (intro zdiv_mono1) simp_all
  finally have "\<bar>sint d sdiv 1000000000\<bar> < 2 ^ 63" by simp
  then show ?thesis
    using sint_quot_range [of d Second] by (simp add: s)
qed

lemma subsecond_quot:
  assumes "0 <s i" "i <s Second"
  shows "quot i Second = 0"
proof -
  have "0 < sint i" "sint i < 1000000000"
    using assms by (simp_all add: word_sless_alt Second_def)
  then have "sint i sdiv 1000000000 = 0"
    by (simp add: signed_divide_int_def)
  then show ?thesis by (simp add: quot_def Second_def)
qed

section \<open>The recomputation\<close>

lemma calc_requests_fields [simp]:
  "r_requests (calc_requests r) = nonneg (p_requests (current r) - p_requests (prev r))"
  "period (calc_requests r) = period r" "prev (calc_requests r) = prev r"
  "current (calc_requests r) = current r" "dumpCurr (calc_requests r) = dumpCurr r"
  "qps (calc_requests r) = qps r"
  by (simp_all add: calc_requests_def nonneg_def Let_def)

lemma calc_successed_fields [simp]:
  "r_successed (calc_successed r) = nonneg (p_successed (current r) - p_successed (prev r))"
  "r_requests (calc_successed r) = r_requests r"
  "period (calc_successed r) = period r" "prev (calc_successed r) = prev r"
  "current (calc_successed r) = current r" "dumpCurr (calc_successed r) = dumpCurr r"
  "qps (calc_successed r) = qps r"
  by (simp_all add: calc_successed_def nonneg_def Let_def)

lemma calc_failure_fields [simp]:
  "r_failure (calc_failure r) = nonneg (p_failure (current r) - p_failure (prev r))"
  "r_requests (calc_failure r) = r_requests r" "r_successed (calc_failure r) = r_successed r"
  "period (calc_failure r) = period r" "prev (calc_failure r) = prev r"
  "current (calc_failure r) = current r" "dumpCurr (calc_failure r) = dumpCurr r"
  "qps (calc_failure r) = qps r"
  by (simp_all add: calc_failure_def nonneg_def Let_def)

lemma calc_rejects_fields [simp]:
  "r_rejects (calc_rejects r) = nonneg (p_rejects (current r) - p_rejects (prev r))"
  "r_requests (calc_rejects r) = r_requests r" "r_successed (calc_rejects r) = r_successed r"
  "r_failure (calc_rejects r) = r_failure r"
  "period (calc_rejects r) = period r" "prev (calc_rejects r) = prev r"
  "current (calc_rejects r) = current r" "dumpCurr (calc_rejects r) = dumpCurr r"
  "qps (calc_rejects r) = qps r"
  by (simp_all add: calc_rejects_def nonneg_def Let_def)

lemma calc_max_fields [simp]:
  "r_requests (calc_max r) = r_requests r" "r_successed (calc_max r) = r_successed r"
  "r_failure (calc_max r) = r_failure r" "r_rejects (calc_max r) = r_rejects r"
  "period (calc_max r) = period r" "prev (calc_max r) = prev r"
  "current (calc_max r) = current r" "dumpCurr (calc_max r) = dumpCurr r"
  "qps (calc_max r) = qps r"
  by (simp_all add: calc_max_def Let_def)

lemma calc_min_fields [simp]:
  "r_requests (calc_min r) = r_requests r" "r_successed (calc_min r) = r_successed r"
  "r_failure (calc_min r) = r_failure r" "r_rejects (calc_min r) = r_rejects r"
  "period (calc_min r) = period r" "prev (calc_min r) = prev r"
  "current (calc_min r) = current r" "dumpCurr (calc_min r) = dumpCurr r"
  "qps (calc_min r) = qps r"
  by (simp_all add: calc_min_def Let_def)

lemma calc_avg_fields [simp]:
  "r_avg (calc_avg r) =
     (if r_requests r = 0 then 0
      else quot (quot (quot (p_costs (current r) - p_costs (prev r)) 1000) 1000) (r_requests r))"
  "r_requests (calc_avg r) = r_requests r" "r_successed (calc_avg r) = r_successed r"
  "r_failure (calc_avg r) = r_failure r" "r_rejects (calc_avg r) = r_rejects r"
  "period (calc_avg r) = period r" "prev (calc_avg r) = prev r"
  "current (calc_avg r) = current r" "dumpCurr (calc_avg r) = dumpCurr r"
  "qps (calc_avg r) = qps r"
  by (simp_all add: calc_avg_def Let_def)

lemma calc_qps_fields:
  "snd (calc_qps r) = (if quot (period r) Second = 0 then Some DivideByZero else None)"
  "qps (fst (calc_qps r)) =
     (if quot (period r) Second = 0 then qps r
      else if r_requests r <s r_successed r then quot (r_requests r) (quot (period r) Second)
      else quot (r_successed r) (quot (period r) Second))"
  "r_avg (fst (calc_qps r)) = r_avg r"
  "r_requests (fst (calc_qps r)) = r_requests r" "r_successed (fst (calc_qps r)) = r_successed r"
  "r_failure (fst (calc_qps r)) = r_failure r" "r_rejects (fst (calc_qps r)) = r_rejects r"
  "period (fst (calc_qps r)) = period r" "prev (fst (calc_qps r)) = prev r"
  "current (fst (calc_qps r)) = current r" "dumpCurr (fst (calc_qps r)) = dumpCurr r"
  by (simp_all add: calc_qps_def go_div_def)

text \<open>\<open>calc\<close> panics exactly when the period has no whole second.\<close>

lemma calc_panics:
  "snd (calc r) = (if quot (period r) Second = 0 then Some DivideByZero else None)"
  by (simp add: calc_def calc_qps_fields)

lemma calc_deltas:
  "r_requests (fst (calc r)) = nonneg (p_requests (current r) - p_requests (prev r))"
  "r_successed (fst (calc r)) = nonneg (p_successed (current r) - p_successed (prev r))"
  "r_failure (fst (calc r)) = nonneg (p_failure (current r) - p_failure (prev r))"
  "r_rejects (fst (calc r)) = nonneg (p_rejects (current r) - p_rejects (prev r))"
  by (simp_all add: calc_def calc_qps_fields)

lemma calc_keeps:
  "period (fst (calc r)) = period r" "prev (fst (calc r)) = prev r"
  "current (fst (calc r)) = current r" "dumpCurr (fst (calc r)) = dumpCurr r"
  by (simp_all add: calc_def calc_qps_fields)

lemma calc_avg_value:
  "r_avg (fst (calc r)) =
     (if nonneg (p_requests (current r) - p_requests (prev r)) = 0 then 0
      else quot (quot (quot (p_costs (current r) - p_costs (prev r)) 1000) 1000)
             (nonneg (p_requests (current r) - p_requests (prev r))))"
  by (simp add: calc_def calc_qps_fields)

lemma calc_qps_value:
  "quot (period r) Second \<noteq> 0 \<Longrightarrow>
   qps (fst (calc r)) =
     (if r_requests (fst (calc r)) <s r_successed (fst (calc r))
      then quot (r_requests (fst (calc r))) (quot (period r) Second)
      else quot (r_successed (fst (calc r))) (quot (period r) Second))"
  by (simp add: calc_def calc_qps_fields)

lemma qps_example_values:
  "quot (period qps_example) Second = 1"
  "sint (period qps_example) = 1000000000"
  "r_requests (fst (calc qps_example)) = 10"
  "r_successed (fst (calc qps_example)) = 8"
  by (simp_all add: calc_deltas qps_example_def newRecently_def newPoint_def nonneg_def
      word_sless_alt quot_def Second_def)

text \<open>
  The stored QPS is not the larger delta over the period: with a request delta of 10, a
  success delta of 8 and a period of 1 s it is 8, where the larger delta gives 10.
\<close>

theorem qps_is_not_larger_delta:
  "snd (calc qps_example) = None
   \<and> r_requests (fst (calc qps_example)) = 10
   \<and> r_successed (fst (calc qps_example)) = 8
   \<and> qps (fst (calc qps_example)) = 8
   \<and> sint (qps (fst (calc qps_example))) \<noteq>
       max (sint (r_requests (fst (calc qps_example))))
           (sint (r_successed (fst (calc qps_example))))
         sdiv (sint (period qps_example) sdiv 1000000000)"
proof -
  have v: "qps (fst (calc qps_example)) = 8"
    by (simp add: calc_qps_value qps_example_values) (simp add: quot_def)
  show ?thesis
    by (simp add: calc_panics qps_example_values v)
qed

text \<open>
  C2, with the smaller delta. For every window whose period has at least one whole second, the
  recomputation completes, the stored request and success deltas are the differences of
  the two snapshots clamped at 0, and the stored QPS is the smaller of these two deltas
  divided, with truncation, by the period in whole seconds.
\<close>

theorem calc_qps_is_smaller_delta:
  assumes "quot (period r) Second \<noteq> 0"
  shows "snd (calc r) = None
     \<and> r_requests (fst (calc r)) = nonneg (p_requests (current r) - p_requests (prev r))
     \<and> r_successed (fst (calc r)) = nonneg (p_successed (current r) - p_successed (prev r))
     \<and> sint (qps (fst (calc r))) =
         min (sint (r_requests (fst (calc r)))) (sint (r_successed (fst (calc r))))
           sdiv (sint (period r) sdiv 1000000000)"
proof -
  let ?req = "r_requests (fst (calc r))" and ?suc = "r_successed (fst (calc r))"
  have req: "0 \<le> sint ?req" and suc: "0 \<le> sint ?suc"
    by (simp_all add: calc_deltas sint_nonneg)
  have "sint (qps (fst (calc r))) =
      (if sint ?req < sint ?suc then sint ?req else sint ?suc) sdiv sint (quot (period r) Second)"
    using assms req suc by (simp add: calc_qps_value word_sless_alt sint_quot)
  also have "(if sint ?req < sint ?suc then sint ?req else sint ?suc) = min (sint ?req) (sint ?suc)"
    by (simp add: min_def)
  finally show ?thesis
    using assms by (simp add: calc_panics calc_deltas sint_quot_Second)
qed

text \<open>On \<open>qps_example\<close> the smaller delta is 8 and the period 1 s: a QPS of 8.\<close>

theorem calc_qps_is_smaller_delta_witness:
  "quot (period qps_example) Second \<noteq> 0
   \<and> snd (calc qps_example) = None
   \<and> sint (qps (fst (calc qps_example))) = 8"
proof -
  have h: "quot (period qps_example) Second \<noteq> 0"
    by (simp add: qps_example_values)
  from calc_qps_is_smaller_delta [OF h] h show ?thesis
    by (simp add: qps_example_values)
qed

section \<open>Registering a window\<close>

lemma AddRecentCount_new:
  assumes "interval \<noteq> 0" "lookup_window a key interval = None"
  shows "points (fst (AddRecentCount a key interval)) key =
           Some (case points a key of None \<Rightarrow> newPoint | Some p \<Rightarrow> p)"
    and "lookup_window (fst (AddRecentCount a key interval)) key interval =
           Some (newRecently interval)"
    and "snd (AddRecentCount a key interval) =
           (if interval \<le>s 0 then Some NonPositiveTicker else None)"
    and "taskRunner (fst (AddRecentCount a key interval)) =
           (if interval \<le>s 0 then taskRunner a else taskRunner a @ [(key, interval)])"
  using assms
  by (auto simp add: AddRecentCount_def Let_def lookup_window_def split: option.splits)

text \<open>
  The two cases in which \<open>AddRecentCount\<close> does nothing: an interval of zero, and a
  window that exists already (every key with a window has a point, since
  \<open>AddRecentCount\<close> creates the point first).
\<close>

lemma AddRecentCount_zero: "AddRecentCount a key 0 = (a, None)"
  by (simp add: AddRecentCount_def)

lemma AddRecentCount_again:
  assumes "points a key = Some p" "lookup_window a key interval = Some w"
  shows "AddRecentCount a key interval = (a, None)"
  using assms
  by (auto simp add: AddRecentCount_def Let_def lookup_window_def split: option.splits)

text \<open>
  C4. \<open>AddRecentCount\<close> does nothing for a zero interval and for a window that
  exists (the two lemmas above), but not for a negative interval: on a new registry,
  \<open>AddRecentCount\<close> with the key \<open>k\<close> and an interval of minus one second creates
  the point of \<open>k\<close>, stores a window under the key and the interval, and then panics
  in \<open>time.NewTicker\<close>; the maps, empty before, are changed.
\<close>

theorem negative_interval_is_registered:
  "AddRecentCount (NewAnalysis []) ''k'' (- Second) =
     (\<lparr>taskRunner = [], points = [''k'' \<mapsto> newPoint],
       recentlyPoints = [''k'' \<mapsto> [- Second \<mapsto> newRecently (- Second)]]\<rparr>,
      Some NonPositiveTicker)
   \<and> points (NewAnalysis []) ''k'' = None
   \<and> recentlyPoints (NewAnalysis []) ''k'' = None"
  by (simp add: AddRecentCount_def NewAnalysis_def Let_def Second_def word_sle_eq)

text \<open>
  C6. For every interval that is positive and shorter than one second: the period in
  whole seconds is 0, so the recomputation of any window of that period panics with a
  division by zero; and \<open>AddRecentCount\<close> accepts the interval: where no window exists
  for the key and the interval, it registers a new window of that period and starts its
  background task, without a panic.
\<close>

theorem subsecond_window_divides_by_zero:
  assumes "0 <s interval" "interval <s Second" "lookup_window a key interval = None"
  shows "quot interval Second = 0
     \<and> snd (calc (r\<lparr>period := interval\<rparr>)) = Some DivideByZero
     \<and> snd (AddRecentCount a key interval) = None
     \<and> lookup_window (fst (AddRecentCount a key interval)) key interval =
         Some (newRecently interval)
     \<and> taskRunner (fst (AddRecentCount a key interval)) = taskRunner a @ [(key, interval)]"
proof -
  have z: "quot interval Second = 0" using assms(1,2) by (rule subsecond_quot)
  have n: "interval \<noteq> 0" "\<not> interval \<le>s 0"
    using assms(1) by (auto simp add: word_sless_alt word_sle_eq)
  show ?thesis
    using AddRecentCount_new [OF n(1) assms(3)] n(2) by (simp add: z calc_panics)
qed

text \<open>A window of 500 ms on a new registry.\<close>

theorem subsecond_window_divides_by_zero_witness:
  "0 <s 500 * Millisecond \<and> 500 * Millisecond <s Second
   \<and> lookup_window (NewAnalysis []) ''k'' (500 * Millisecond) = None
   \<and> snd (calc (newRecently (500 * Millisecond))) = Some DivideByZero
   \<and> snd (AddRecentCount (NewAnalysis []) ''k'' (500 * Millisecond)) = None
   \<and> taskRunner (fst (AddRecentCount (NewAnalysis []) ''k'' (500 * Millisecond))) =
       [(''k'', 500 * Millisecond)]"
proof -
  have h: "0 <s 500 * Millisecond" "500 * Millisecond <s Second"
    "lookup_window (NewAnalysis []) ''k'' (500 * Millisecond) = None"
    by (simp_all add: Millisecond_def Second_def word_sless_alt lookup_window_def
        NewAnalysis_def)
  have p: "(newRecently (500 * Millisecond))\<lparr>period := 500 * Millisecond\<rparr> =
      newRecently (500 * Millisecond)"
    by (simp add: newRecently_def)
  from subsecond_window_divides_by_zero [OF h, of "newRecently (500 * Millisecond)"] h
  show ?thesis
    by (simp add: p NewAnalysis_def)
qed

section \<open>Ticks\<close>

lemma lookup_window_SomeD:
  "lookup_window a key i = Some w \<Longrightarrow> \<exists>m. recentlyPoints a key = Some m \<and> m i = Some w"
  by (simp add: lookup_window_def split: option.splits)

text \<open>A tick of a window whose toggle is off fills \<open>prev\<close> and does not recompute.\<close>

lemma tick_fills_prev:
  assumes "points a key = Some p" "recentlyPoints a key = Some m" "m i = Some w"
    and "\<not> dumpCurr w"
  shows "tick a key i =
     (a\<lparr>points := (points a)(key \<mapsto> fst (dump p (prev w))),
        recentlyPoints := (recentlyPoints a)(key \<mapsto>
           m(i \<mapsto> w\<lparr>prev := snd (dump p (prev w)), dumpCurr := True\<rparr>))\<rparr>, None)"
  using assms by (simp add: tick_def record_p_def case_prod_beta)

text \<open>A tick of a window whose toggle is on fills \<open>current\<close> and recomputes.\<close>

lemma tick_fills_current:
  assumes "points a key = Some p" "recentlyPoints a key = Some m" "m i = Some w"
    and "dumpCurr w" and "quot (period w) Second \<noteq> 0"
  shows "tick a key i =
     (a\<lparr>points := (points a)(key \<mapsto> fst (dump p (current w))),
        recentlyPoints := (recentlyPoints a)(key \<mapsto>
           m(i \<mapsto> (fst (calc (w\<lparr>current := snd (dump p (current w))\<rparr>)))
                   \<lparr>dumpCurr := False\<rparr>))\<rparr>,
      None)"
proof -
  let ?w = "w\<lparr>current := snd (dump p (current w))\<rparr>"
  have "snd (calc ?w) = None" using assms(5) by (simp add: calc_panics)
  then obtain r2 where c: "calc ?w = (r2, None)" by (metis prod.collapse)
  then have f: "fst (calc ?w) = r2" by simp
  have "dumpCurr (fst (calc ?w))" using assms(4) by (simp add: calc_keeps)
  then have d: "dumpCurr r2" by (simp add: f)
  have "record_p w p = ((r2\<lparr>dumpCurr := False\<rparr>, fst (dump p (current w))), None)"
    using assms(4) d by (simp add: record_p_def case_prod_beta c)
  then show ?thesis
    using assms(1-3) by (simp add: tick_def f)
qed

text \<open>
  Traffic between the tick that fills \<open>prev\<close> and the tick that fills \<open>current\<close>: the
  average read afterwards is the cost of the successes, in milliseconds, divided by the
  number of requests.
\<close>

lemma traffic_between_ticks:
  assumes "points a key = Some p" "recentlyPoints a key = Some m" "m Second = Some w"
    and "period w = Second" "\<not> dumpCurr w"
  shows "snd (run a (Tick key Second # traffic key n k cost f @ [Tick key Second])) = None
     \<and> GetRecentlyAvg (fst (run a (Tick key Second # traffic key n k cost f @ [Tick key Second])))
          key Second
        = (if nonneg (of_nat n) = 0 then 0
           else quot (quot (quot (of_nat (Suc k) * cost) 1000) 1000) (nonneg (of_nat n)),
           fst (run a (Tick key Second # traffic key n k cost f @ [Tick key Second])))"
proof -
  let ?p0 = "fst (dump p (prev w))"
  let ?w1 = "w\<lparr>prev := snd (dump p (prev w)), dumpCurr := True\<rparr>"
  let ?m1 = "m(Second \<mapsto> ?w1)"
  let ?a1 = "a\<lparr>points := (points a)(key \<mapsto> ?p0),
               recentlyPoints := (recentlyPoints a)(key \<mapsto> ?m1)\<rparr>"
  have t1: "tick a key Second = (?a1, None)"
    by (rule tick_fills_prev [OF assms(1,2,3,5)])
  let ?p1 = "?p0\<lparr>p_requests := p_requests ?p0 + of_nat n\<rparr>"
  let ?a2 = "?a1\<lparr>points := (points ?a1)(key \<mapsto> ?p1)\<rparr>"
  have r: "run ?a1 (replicate n (CallRequest key)) = (?a2, None)"
    by (rule run_requests) simp
  let ?p2 = "after_successes (Suc k) cost ?p1"
  let ?a3 = "?a2\<lparr>points := (points ?a2)(key \<mapsto> ?p2)\<rparr>"
  have s: "run ?a2 (replicate (Suc k) (CallResponse key cost)) = (?a3, None)"
    by (rule run_responses) simp
  let ?p3 = "?p2\<lparr>p_failure := p_failure ?p2 + of_nat f,
                 p_continuousFailure := p_continuousFailure ?p2 + of_nat f\<rparr>"
  let ?a4 = "?a3\<lparr>points := (points ?a3)(key \<mapsto> ?p3)\<rparr>"
  have fl: "run ?a3 (replicate f (CallFailure key)) = (?a4, None)"
    by (rule run_failures) simp
  have tr: "run ?a1 (traffic key n k cost f) = (?a4, None)"
    unfolding traffic_def
    by (rule run_append_ok [OF r], rule run_append_ok [OF s], rule fl)
  let ?W = "?w1\<lparr>current := snd (dump ?p3 (current ?w1))\<rparr>"
  let ?w2 = "(fst (calc ?W))\<lparr>dumpCurr := False\<rparr>"
  let ?a5 = "?a4\<lparr>points := (points ?a4)(key \<mapsto> fst (dump ?p3 (current ?w1))),
               recentlyPoints := (recentlyPoints ?a4)(key \<mapsto> ?m1(Second \<mapsto> ?w2))\<rparr>"
  have one: "quot Second Second \<noteq> 0" by (simp add: quot_def Second_def)
  have t2: "tick ?a4 key Second = (?a5, None)"
    by (rule tick_fills_current [where p = ?p3 and m = ?m1 and w = ?w1])
       (simp_all add: assms(4) one)
  have last: "run ?a4 [Tick key Second] = (?a5, None)"
    by (rule run_Cons_ok [where a' = ?a5]) (simp_all only: call_on.simps t2 run.simps)
  have whole: "run a (Tick key Second # traffic key n k cost f @ [Tick key Second]) = (?a5, None)"
    by (rule run_Cons_ok [where a' = ?a1], simp only: call_on.simps t1,
        rule run_append_ok [OF tr], rule last)
  have req: "p_requests (current ?W) - p_requests (prev ?W) = of_nat n"
    by (simp add: dump_def after_successes_def)
  have cst: "p_costs (current ?W) - p_costs (prev ?W) = of_nat (Suc k) * cost"
    by (simp add: dump_def after_successes_def)
  have "r_avg ?w2 = r_avg (fst (calc ?W))" by simp
  also have "\<dots> = (if nonneg (of_nat n) = 0 then 0
      else quot (quot (quot (of_nat (Suc k) * cost) 1000) 1000) (nonneg (of_nat n)))"
    unfolding calc_avg_value req cst ..
  finally have avg: "r_avg ?w2 = (if nonneg (of_nat n) = 0 then 0
      else quot (quot (quot (of_nat (Suc k) * cost) 1000) 1000) (nonneg (of_nat n)))" .
  have "GetRecentlyAvg ?a5 key Second = (r_avg ?w2, ?a5)"
    by (simp add: GetRecentlyAvg_def)
  then show ?thesis
    unfolding whole avg by simp
qed

lemma one_tick_of_traffic_eq:
  "one_tick_of_traffic key = traffic key 10 7 (50 * Millisecond) 2"
  by (simp add: one_tick_of_traffic_def traffic_def)

lemma avg_of_the_scenario:
  "(if nonneg (of_nat 10) = 0 then 0
    else quot (quot (quot (of_nat (Suc 7) * (50 * Millisecond)) 1000) 1000)
           (nonneg (of_nat 10))) = 40"
  by (simp add: nonneg_def quot_def word_sless_alt Millisecond_def)

lemma AddRecentCount_upstream_1:
  "AddRecentCount (NewAnalysis []) ''upstream-1'' Second =
     (\<lparr>taskRunner = [(''upstream-1'', Second)], points = [''upstream-1'' \<mapsto> newPoint],
       recentlyPoints = [''upstream-1'' \<mapsto> [Second \<mapsto> newRecently Second]]\<rparr>, None)"
  by (simp add: AddRecentCount_def NewAnalysis_def Let_def Second_def word_sle_eq)

section \<open>The scenario of the specification\<close>

text \<open>
  In the scenario on a new registry no call fails, and the average latency read for the
  window of 1 s after the second tick is 40, not 50: the cost delta of 400 ms is divided
  by the request delta, 10.
\<close>

theorem scenario_avg_is_not_50:
  "snd upstream_1_scenario = None
   \<and> fst (GetRecentlyAvg (fst upstream_1_scenario) ''upstream-1'' Second) = 40
   \<and> fst (GetRecentlyAvg (fst upstream_1_scenario) ''upstream-1'' Second) \<noteq> 50"
proof -
  let ?a = "\<lparr>taskRunner = [(''upstream-1'', Second)], points = [''upstream-1'' \<mapsto> newPoint],
       recentlyPoints = [''upstream-1'' \<mapsto> [Second \<mapsto> newRecently Second]]\<rparr>"
  let ?T = "Tick ''upstream-1'' Second # one_tick_of_traffic ''upstream-1''
              @ [Tick ''upstream-1'' Second]"
  have "upstream_1_scenario = run ?a ?T"
    by (simp add: upstream_1_scenario_def AddRecentCount_upstream_1)
  moreover have "snd (run ?a ?T) = None
     \<and> GetRecentlyAvg (fst (run ?a ?T)) ''upstream-1'' Second = (40, fst (run ?a ?T))"
    unfolding one_tick_of_traffic_eq
    using traffic_between_ticks [of ?a "''upstream-1''" newPoint
        "[Second \<mapsto> newRecently Second]" "newRecently Second" 10 7 "50 * Millisecond" 2]
    unfolding avg_of_the_scenario
    by (simp add: newRecently_def)
  ultimately show ?thesis by simp
qed

text \<open>
  C3, with 40 for 50. For a key that has a point, whatever its counters are, and a window
  of 1 s whose next snapshot goes to \<open>prev\<close>: when a tick is followed by 10 requests, 8
  successes of 50 ms each and 2 failures on the key and then by the next tick, no call
  fails and the average latency read for the window is 40 ms, the cost delta of 400 ms
  divided by the request delta of 10. The read leaves the registry as it is.
\<close>

theorem avg_is_cost_over_requests:
  assumes "points a key = Some p" "lookup_window a key Second = Some w"
    and "period w = Second" "\<not> dumpCurr w"
  shows "snd (run a (Tick key Second # one_tick_of_traffic key @ [Tick key Second])) = None
     \<and> GetRecentlyAvg (fst (run a (Tick key Second # one_tick_of_traffic key @ [Tick key Second])))
          key Second
        = (40, fst (run a (Tick key Second # one_tick_of_traffic key @ [Tick key Second])))"
proof -
  from assms(2) obtain m where m: "recentlyPoints a key = Some m" "m Second = Some w"
    using lookup_window_SomeD by blast
  show ?thesis
    using traffic_between_ticks [OF assms(1) m assms(3,4), of 10 7 "50 * Millisecond" 2]
    unfolding one_tick_of_traffic_eq avg_of_the_scenario .
qed

text \<open>On \<open>warm_registry\<close>, whose key has seen 3 requests and 3 successes before.\<close>

theorem avg_is_cost_over_requests_witness:
  "points warm_registry ''upstream-1'' =
      Some (newPoint\<lparr>p_requests := 3, p_successed := 3, p_costs := 90 * Millisecond\<rparr>)
   \<and> lookup_window warm_registry ''upstream-1'' Second = Some (newRecently Second)
   \<and> period (newRecently Second) = Second
   \<and> \<not> dumpCurr (newRecently Second)
   \<and> snd (run warm_registry (Tick ''upstream-1'' Second # one_tick_of_traffic ''upstream-1''
             @ [Tick ''upstream-1'' Second])) = None
   \<and> fst (GetRecentlyAvg
        (fst (run warm_registry (Tick ''upstream-1'' Second # one_tick_of_traffic ''upstream-1''
             @ [Tick ''upstream-1'' Second]))) ''upstream-1'' Second) = 40"
proof -
  have h1: "points warm_registry ''upstream-1'' =
      Some (newPoint\<lparr>p_requests := 3, p_successed := 3, p_costs := 90 * Millisecond\<rparr>)"
    by (simp add: warm_registry_def)
  have h2: "lookup_window warm_registry ''upstream-1'' Second = Some (newRecently Second)"
    by (simp add: warm_registry_def lookup_window_def)
  have h3: "period (newRecently Second) = Second"
    by (simp add: newRecently_def)
  have h4: "\<not> dumpCurr (newRecently Second)"
    by (simp add: newRecently_def)
  from avg_is_cost_over_requests [OF h1 h2 h3 h4] h1 h2 h3 h4 show ?thesis
    by (simp only: fst_conv simp_thms)
qed

section \<open>The loop of the background task\<close>

text \<open>
  C5. When \<open>select\<close> takes the case of the context's \<open>Done\<close> channel, the body stops
  the timer and goes round the loop again: the case has no \<open>return\<close>. For every
  sequence of cases that \<open>select\<close> may take, from every pass and every state, the loop
  does not return: it runs forever, or the process ends in a panic of the
  recomputation.
\<close>

theorem task_loop_never_returns:
  "loop_body key interval CtxDone s = Continue (s\<lparr>timer_stopped := True\<rparr>)
   \<and> task_loop key interval sched n s \<noteq> Some (s', None)"
proof
  show "loop_body key interval CtxDone s = Continue (s\<lparr>timer_stopped := True\<rparr>)"
    by (simp add: loop_body_def)
next
  have "snd r \<noteq> None" if "task_loop key interval sched n s = Some r" for r
  proof (rule task_loop.raw_induct [where P = "\<lambda>_ _ _ _ _ r. snd r \<noteq> None", OF _ that])
    fix f key interval sched n s y
    assume IH: "\<And>key interval sched n s y.
        f key interval sched n s = Some y \<Longrightarrow> snd y \<noteq> None"
      and body: "(case loop_body key interval (sched n) s of
          Continue s' \<Rightarrow> f key interval sched (Suc n) s'
        | Return s' \<Rightarrow> Some (s', None)
        | Panicked s' e \<Rightarrow> Some (s', Some e)) = Some y"
    show "snd y \<noteq> None"
    proof (cases "loop_body key interval (sched n) s")
      case (Continue s')
      with body IH show ?thesis by simp
    next
      case (Return s')
      then show ?thesis
        by (simp add: loop_body_def split: select_case.splits prod.splits option.splits)
    next
      case (Panicked s' e)
      with body show ?thesis by auto
    qed
  qed
  then show "task_loop key interval sched n s \<noteq> Some (s', None)"
    by fastforce
qed

end
